theory Spec2Isabelle
  imports Main "HOL-Library.Sublist"
begin

section \<open>Go primitives used by pkg/message/header.go\<close>

subsection \<open>Package strings\<close>

text \<open>
  A Go string is a sequence of bytes, here a \<^typ>\<open>string\<close>. \<open>strings.Index\<close> gives the
  byte index of the first occurrence of \<open>substr\<close>, or \<open>-1\<close>; \<open>strings.LastIndex\<close> the
  index of the last one; \<open>strings.Contains\<close> is \<open>Index \<ge> 0\<close>.
\<close>

fun Index :: "string \<Rightarrow> string \<Rightarrow> int" where
  "Index [] substr = (if substr = [] then 0 else - 1)"
| "Index (c # s) substr =
     (if prefix substr (c # s) then 0
      else (let r = Index s substr in if r < 0 then - 1 else r + 1))"

fun LastIndex :: "string \<Rightarrow> string \<Rightarrow> int" where
  "LastIndex [] substr = (if substr = [] then 0 else - 1)"
| "LastIndex (c # s) substr =
     (let r = LastIndex s substr
      in if 0 \<le> r then r + 1 else if prefix substr (c # s) then 0 else - 1)"

definition Contains :: "string \<Rightarrow> string \<Rightarrow> bool" where
  "Contains s substr = (0 \<le> Index s substr)"

fun Join :: "string list \<Rightarrow> string \<Rightarrow> string" where
  "Join [] sep = []"
| "Join [x] sep = x"
| "Join (x # y # ys) sep = x @ sep @ Join (y # ys) sep"


subsection \<open>Panics and slices\<close>

text \<open>
  A run either panics (index or slice bound out of range) or returns. A slice is
  \<open>None\<close> when it is Go's \<open>nil\<close>; \<open>len\<close> of a nil slice is 0.
\<close>

datatype 'a exec = Panic | Return 'a

fun bindE :: "'a exec \<Rightarrow> ('a \<Rightarrow> 'b exec) \<Rightarrow> 'b exec" where
  "bindE Panic f = Panic"
| "bindE (Return x) f = f x"

fun len :: "'a list option \<Rightarrow> nat" where
  "len None = 0"
| "len (Some xs) = length xs"

text \<open>\<open>addrs[i]\<close>: panics unless \<open>i < len(addrs)\<close>.\<close>

fun elemAt :: "'a list option \<Rightarrow> nat \<Rightarrow> 'a exec" where
  "elemAt None i = Panic"
| "elemAt (Some xs) i = (if i < length xs then Return (xs ! i) else Panic)"

subsection \<open>net/textproto: MIMEHeader\<close>

text \<open>
  \<open>MIMEHeader\<close> is \<open>map[string][]string\<close>. \<open>Get\<close> and \<open>Set\<close> canonicalise the key with
  \<open>CanonicalMIMEHeaderKey\<close>: a key made of token bytes only has the first letter and every
  letter after a hyphen in upper case and the rest in lower case; any other key is left as
  it is.
\<close>

type_synonym mimeheader = "string \<rightharpoonup> string list"

definition isLower :: "char \<Rightarrow> bool" where
  "isLower c = (97 \<le> (of_char c :: nat) \<and> (of_char c :: nat) \<le> 122)"

definition isUpper :: "char \<Rightarrow> bool" where
  "isUpper c = (65 \<le> (of_char c :: nat) \<and> (of_char c :: nat) \<le> 90)"

definition isDigit :: "char \<Rightarrow> bool" where
  "isDigit c = (48 \<le> (of_char c :: nat) \<and> (of_char c :: nat) \<le> 57)"

definition validHeaderFieldByte :: "char \<Rightarrow> bool" where
  "validHeaderFieldByte c =
     (isLower c \<or> isUpper c \<or> isDigit c \<or>
      (of_char c :: nat) \<in> {33, 35, 36, 37, 38, 39, 42, 43, 45, 46, 94, 95, 96, 124, 126})"

fun canonicalLoop :: "bool \<Rightarrow> string \<Rightarrow> string" where
  "canonicalLoop upper [] = []"
| "canonicalLoop upper (c # cs) =
     (let c' = (if upper \<and> isLower c then char_of ((of_char c :: nat) - 32)
                else if \<not> upper \<and> isUpper c then char_of ((of_char c :: nat) + 32)
                else c)
      in c' # canonicalLoop (c' = CHR ''-'') cs)"

definition CanonicalMIMEHeaderKey :: "string \<Rightarrow> string" where
  "CanonicalMIMEHeaderKey s = (if list_all validHeaderFieldByte s then canonicalLoop True s else s)"

subsection \<open>The store of header mappings\<close>

text \<open>
  A Go map value is a reference: converting \<open>msg.Header\<close> to \<open>textproto.MIMEHeader\<close> or
  assigning it gives another name for the same mapping, and \<open>Set\<close> writes through every
  name. The store holds the mappings by address; a header variable is \<open>None\<close> (nil) or the
  address of its mapping; \<open>make(textproto.MIMEHeader)\<close> takes the next free address.
\<close>

type_synonym ref = nat

record store =
  heap :: "ref \<Rightarrow> mimeheader"
  nextRef :: ref

definition makeMIMEHeader :: "store \<Rightarrow> ref \<times> store" where
  "makeMIMEHeader st = (nextRef st, st\<lparr>heap := (heap st)(nextRef st := Map.empty), nextRef := Suc (nextRef st)\<rparr>)"

text \<open>\<open>h.Get(key)\<close>: the empty string on a nil mapping, a missing key or an empty value list.\<close>

definition Get :: "store \<Rightarrow> ref option \<Rightarrow> string \<Rightarrow> string" where
  "Get st h key =
     (case h of
        None \<Rightarrow> []
      | Some r \<Rightarrow>
          (case heap st r (CanonicalMIMEHeaderKey key) of
             None \<Rightarrow> []
           | Some [] \<Rightarrow> []
           | Some (v # vs) \<Rightarrow> v))"

text \<open>\<open>h.Set(key, value)\<close> on a non-nil mapping: the key's values become \<open>[value]\<close>.\<close>

definition Set :: "store \<Rightarrow> ref \<Rightarrow> string \<Rightarrow> string \<Rightarrow> store" where
  "Set st r key v = st\<lparr>heap := (heap st)(r := (heap st r)(CanonicalMIMEHeaderKey key \<mapsto> [v]))\<rparr>"

text \<open>A header variable is allocated when it is nil or points below the next free address.\<close>

fun allocated :: "store \<Rightarrow> ref option \<Rightarrow> bool" where
  "allocated st None = True"
| "allocated st (Some r) = (r < nextRef st)"

section \<open>Data model\<close>

datatype error = ErrHeaderNotPresent | Err string

record address =
  Name :: string
  Address :: string

text \<open>\<open>pmapi.Message\<close>, the fields this file reads or writes. \<open>Time\<close> is an \<open>int64\<close> that is
  only compared and passed on, so it is an \<^typ>\<open>int\<close>.\<close>

record message =
  ID :: string
  ExternalID :: string
  ConversationID :: string
  Subject :: string
  Sender :: "address option"
  ReplyTos :: "address list option"
  ToList :: "address list option"
  CCList :: "address list option"
  BCCList :: "address list option"
  Time :: int
  Header :: "ref option"

text \<open>\<open>pmapi.Attachment\<close>, the fields this file reads.\<close>

record attachment =
  attName :: string
  attMIMEType :: string
  attHeader :: "ref option"

text \<open>
  A \<open>time.Time\<close> as returned by \<open>mail.ParseDate\<close> has whole seconds, so it is its Unix
  time; the zero \<open>time.Time\<close> is January 1, year 1, 00:00:00 UTC.
\<close>

definition zeroTime :: int where
  "zeroTime = - 62135596800"

definition IsZero :: "int \<Rightarrow> bool" where
  "IsZero t = (t = zeroTime)"

definition Unix :: "int \<Rightarrow> int" where
  "Unix t = t"

text \<open>
  The collaborators that are not part of this file: \<open>pmmime.EncodeHeader\<close> and
  \<open>pmmime.DecodeHeader\<close>, \<open>mail.ParseAddressList\<close>, \<open>mail.ParseDate\<close>,
  \<open>time.Unix(t, 0).Format(time.RFC1123Z)\<close>, \<open>mime.FormatMediaType\<close>,
  \<open>(*mail.Address).String\<close>, the package's \<open>formatAddressList\<close> and
  \<open>parseAddressComment\<close>, and the two domain constants of \<open>pmapi\<close>. A Go function
  returning \<open>(x, err)\<close> returns a pair whose error is \<open>None\<close> for \<open>nil\<close>.
\<close>

record env =
  EncodeHeader :: "string \<Rightarrow> string"
  DecodeHeader :: "string \<Rightarrow> string \<times> error option"
  ParseAddressList :: "string \<Rightarrow> address list option \<times> error option"
  ParseDate :: "string \<Rightarrow> int \<times> error option"
  FormatRFC1123Z :: "int \<Rightarrow> string"
  FormatMediaType :: "string \<Rightarrow> (string \<rightharpoonup> string) \<Rightarrow> string"
  AddressString :: "address \<Rightarrow> string"
  formatAddressList :: "address list option \<Rightarrow> string"
  parseAddressComment :: "string \<Rightarrow> string"
  InternalIDDomain :: string
  ConversationIDDomain :: string

text \<open>\<open>mail.Header.Date\<close>: \<open>ErrHeaderNotPresent\<close> when \<open>Get("Date")\<close> is empty, else
  \<open>ParseDate\<close> of it.\<close>

definition Date :: "env \<Rightarrow> store \<Rightarrow> ref option \<Rightarrow> int \<times> error option" where
  "Date E st h =
     (let hdr = Get st h ''Date''
      in if hdr = [] then (zeroTime, Some ErrHeaderNotPresent) else ParseDate E hdr)"

section \<open>Building headers\<close>

subsection \<open>GetHeader\<close>

text \<open>Lines 40 to 56: add or rewrite fields.\<close>

definition setStandardFields :: "env \<Rightarrow> message \<Rightarrow> ref \<Rightarrow> store \<Rightarrow> store" where
  "setStandardFields E msg h st =
     (let st = Set st h ''Subject'' (EncodeHeader E (Subject msg));
          st = (case Sender msg of
                  None \<Rightarrow> st
                | Some a \<Rightarrow> Set st h ''From'' (EncodeHeader E (AddressString E a)));
          st = (if 0 < len (ReplyTos msg)
                then Set st h ''Reply-To'' (EncodeHeader E (formatAddressList E (ReplyTos msg)))
                else st);
          st = (if 0 < len (ToList msg)
                then Set st h ''To'' (EncodeHeader E (formatAddressList E (ToList msg)))
                else st);
          st = (if 0 < len (CCList msg)
                then Set st h ''Cc'' (EncodeHeader E (formatAddressList E (CCList msg)))
                else st);
          st = (if 0 < len (BCCList msg)
                then Set st h ''Bcc'' (EncodeHeader E (formatAddressList E (BCCList msg)))
                else st)
      in st)"

text \<open>Lines 58 to 64: add or rewrite date related fields. The date is read through
  \<open>msg.Header\<close>, which is nil or the mapping \<open>h\<close> itself.\<close>

definition setDateFields :: "env \<Rightarrow> message \<Rightarrow> ref \<Rightarrow> store \<Rightarrow> store" where
  "setDateFields E msg h st =
     (if 0 < Time msg then
        (let st = Set st h ''X-Pm-Date'' (FormatRFC1123Z E (Time msg));
             (d, err) = Date E st (Header msg)
         in if err \<noteq> None \<or> IsZero d
            then Set st h ''Date'' (FormatRFC1123Z E (Time msg))
            else st)
      else st)"

text \<open>Lines 69 to 74.\<close>

definition setExternalID :: "message \<Rightarrow> ref \<Rightarrow> store \<Rightarrow> store" where
  "setExternalID msg h st =
     (if ExternalID msg \<noteq> [] then
        (let st = Set st h ''X-Pm-External-Id'' (''<'' @ ExternalID msg @ ''>'')
         in if Get st (Some h) ''Message-Id'' = []
            then Set st h ''Message-Id'' (''<'' @ ExternalID msg @ ''>'')
            else st)
      else st)"

text \<open>Lines 75 to 85.\<close>

definition setInternalID :: "env \<Rightarrow> message \<Rightarrow> ref \<Rightarrow> store \<Rightarrow> store" where
  "setInternalID E msg h st =
     (if ID msg \<noteq> [] then
        (let st = (if Get st (Some h) ''Message-Id'' = []
                   then Set st h ''Message-Id'' (''<'' @ ID msg @ ''@'' @ InternalIDDomain E @ ''>'')
                   else st);
             st = Set st h ''X-Pm-Internal-Id'' (ID msg);
             references = Get st (Some h) ''References''
         in if \<not> Contains references (ID msg)
            then Set st h ''References''
                   (references @ '' <'' @ ID msg @ ''@'' @ InternalIDDomain E @ ''>'')
            else st)
      else st)"

text \<open>Lines 86 to 92.\<close>

definition setConversationID :: "env \<Rightarrow> message \<Rightarrow> ref \<Rightarrow> store \<Rightarrow> store" where
  "setConversationID E msg h st =
     (if ConversationID msg \<noteq> [] then
        (let st = Set st h ''X-Pm-ConversationID-Id'' (ConversationID msg);
             references = Get st (Some h) ''References''
         in if \<not> Contains references (ConversationID msg)
            then Set st h ''References''
                   (references @ '' <'' @ ConversationID msg @ ''@'' @ ConversationIDDomain E @ ''>'')
            else st)
      else st)"

text \<open>\<open>GetHeader\<close>: \<open>h\<close> is a fresh mapping, or \<open>msg.Header\<close> itself when that is not nil
  (the conversion to \<open>textproto.MIMEHeader\<close> does not copy). The result is the address
  returned and the store after the call.\<close>

definition GetHeader :: "env \<Rightarrow> store \<Rightarrow> message \<Rightarrow> ref \<times> store" where
  "GetHeader E st msg =
     (let (h0, st) = makeMIMEHeader st;
          h = (case Header msg of None \<Rightarrow> h0 | Some r \<Rightarrow> r);
          st = setStandardFields E msg h st;
          st = setDateFields E msg h st;
          st = setExternalID msg h st;
          st = setInternalID E msg h st;
          st = setConversationID E msg h st
      in (h, st))"

subsection \<open>GetAttachmentHeader\<close>

definition forward :: "string list" where
  "forward = [''Content-Id'', ''Content-Description'', ''Content-Location'']"

definition GetAttachmentHeader :: "env \<Rightarrow> store \<Rightarrow> attachment \<Rightarrow> ref \<times> store" where
  "GetAttachmentHeader E st att =
     (let mediaType = (if attMIMEType att = ''application/pgp-encrypted''
                       then ''application/octet-stream'' else attMIMEType att);
          encodedName = EncodeHeader E (attName att);
          disposition = (if Contains (Get st (attHeader att) ''Content-Disposition'') ''inline''
                         then ''inline'' else ''attachment'');
          (h, st) = makeMIMEHeader st;
          st = Set st h ''Content-Type'' (FormatMediaType E mediaType [''name'' \<mapsto> encodedName]);
          st = Set st h ''Content-Transfer-Encoding'' ''base64'';
          st = Set st h ''Content-Disposition''
                 (FormatMediaType E disposition [''filename'' \<mapsto> encodedName]);
          st = foldl (\<lambda>st k. let v = Get st (attHeader att) k
                              in if v \<noteq> [] then Set st h k v else st) st forward
      in (h, st))"

section \<open>Header parsing and sanitizing\<close>

text \<open>
  The loop of lines 203 to 210, on \<open>open\<close>, \<open>last\<close>, \<open>addrStr\<close> and \<open>addrList\<close>. The result
  is \<open>None\<close> when one of the three slice expressions is out of range (a panic in Go).
\<close>

function bracketLoop :: "int \<Rightarrow> int \<Rightarrow> string \<Rightarrow> string list \<Rightarrow> string list option" where
  "bracketLoop opn lst addrStr addrList =
     (if opn < lst \<and> 0 \<le> opn then
        (if int (length addrStr) < opn then None
         else
           (let s1 = drop (nat opn) addrStr;
                cls = Index s1 ''>''
            in if cls + 1 < 0 \<or> int (length s1) < cls + 1 then None
               else if cls < 0 \<or> int (length s1) < cls then None
               else
                 (let s2 = drop (nat cls) s1
                  in bracketLoop (Index s2 ''<'') (LastIndex s2 ''>'') s2
                       (addrList @ [take (nat (cls + 1)) s1]))))
      else Some addrList)"
  by pat_completeness auto

text \<open>Termination: an iteration that is followed by another one leaves a string that
  starts with the closing bracket found, so it is shorter than the string before, unless
  \<open>open\<close> and \<open>close\<close> were both 0; then the next \<open>open\<close> is not 0.\<close>

termination
proof (relation "measure (\<lambda>(opn, lst, s, l). 2 * length s + (if opn = 0 then 1 else 0))", goal_cases)
  case 1
  show ?case by simp
next
  case (2 opn lst addrStr addrList s1 cls s2)
  have found: "0 \<le> Index s sub \<Longrightarrow> prefix sub (drop (nat (Index s sub)) s)" for s sub
  proof (induction s)
    case Nil
    then show ?case by (simp split: if_splits)
  next
    case (Cons c s)
    show ?case
    proof (cases "prefix sub (c # s)")
      case True
      then show ?thesis by simp
    next
      case False
      with Cons.prems have r: "0 \<le> Index s sub" and e: "Index (c # s) sub = Index s sub + 1"
        by (simp_all add: Let_def split: if_splits)
      from r have "nat (Index s sub + 1) = Suc (nat (Index s sub))" by simp
      with Cons.IH [OF r] e show ?thesis by simp
    qed
  qed
  note s1_eq = 2(3) and cls_eq = 2(4) and s2_eq = 2(7)
  from 2(1) 2(6) have o0: "0 \<le> opn" and c0: "0 \<le> cls" by simp_all
  have "prefix ''>'' (drop (nat (Index s1 ''>'')) s1)"
    using found [of s1 "''>''"] c0 by (simp add: cls_eq)
  then have "prefix ''>'' s2" by (simp add: s2_eq cls_eq)
  then obtain t where s2: "s2 = CHR ''>'' # t" by (auto simp: prefix_def)
  have nz: "Index s2 ''<'' \<noteq> 0"
  proof
    assume z: "Index s2 ''<'' = 0"
    then have "prefix ''<'' s2" using found [of s2 "''<''"] by simp
    with s2 show False by simp
  qed
  have len: "length s2 = length addrStr - nat opn - nat cls" by (simp add: s2_eq s1_eq)
  have pos: "0 < length s2" using s2 by simp
  have "2 * length s2 + (if Index s2 ''<'' = 0 then 1 else 0)
          < 2 * length addrStr + (if opn = 0 then 1 else 0)"
  proof (cases "opn = 0 \<and> cls = 0")
    case True
    then have "s2 = addrStr" by (simp add: s2_eq s1_eq)
    with nz True show ?thesis by simp
  next
    case False
    then have "0 < nat opn + nat cls" using o0 c0 by auto
    with len pos have "length s2 < length addrStr" by arith
    then show ?thesis by (simp split: if_splits)
  qed
  then show ?case by simp
qed

text \<open>\<open>sanitizeAddressList\<close>, lines 176 to 214. The named results \<open>addrs\<close> and \<open>err\<close> are
  the pair returned.\<close>

definition sanitizeAddressList ::
  "env \<Rightarrow> store \<Rightarrow> ref option \<Rightarrow> string \<Rightarrow> (address list option \<times> error option) exec" where
  "sanitizeAddressList E st h field =
     (let raw = Get st h field
      in if raw = [] then Return (None, Some ErrHeaderNotPresent)
         else
           (let (decoded, err) = DecodeHeader E raw
            in if err \<noteq> None then Return (None, err)
               else
                 (let (addrs, err) = ParseAddressList E (parseAddressComment E decoded)
                  in if err = None then Return (if addrs = None then Some [] else addrs, err)
                     else
                       (let addrStr = Get st h field;
                            frst = Index addrStr ''<'';
                            lst = LastIndex addrStr ''>''
                        in if frst < 0 \<or> lst < 0 \<or> lst \<le> frst then Return (addrs, err)
                           else
                             (case bracketLoop frst lst addrStr [] of
                                None \<Rightarrow> Panic
                              | Some addrList \<Rightarrow>
                                  Return (ParseAddressList E (Join addrList '', '')))))))"

text \<open>Modelled from the spec: \<open>pmapi.NewMessage\<close> is not in this file. A new Message has no
  sender, no header mapping, empty strings, time 0, and empty (non-nil) To, Cc and Bcc
  lists.\<close>

definition NewMessage :: message where
  "NewMessage =
     \<lparr>ID = [], ExternalID = [], ConversationID = [], Subject = [], Sender = None,
      ReplyTos = None, ToList = Some [], CCList = Some [], BCCList = Some [],
      Time = 0, Header = None\<rparr>"

text \<open>\<open>parseHeader\<close>, lines 146 to 174. It reads the mapping and writes none.\<close>

definition parseHeader :: "env \<Rightarrow> store \<Rightarrow> ref option \<Rightarrow> (message \<times> error option) exec" where
  "parseHeader E st h =
     (let m = NewMessage;
          (subject, err) = DecodeHeader E (Get st h ''Subject'');
          m = (if err = None then m\<lparr>Subject := subject\<rparr> else m)
      in bindE (sanitizeAddressList E st h ''From'') (\<lambda>(addrs, err).
         bindE (if err = None \<and> 0 < len addrs
                then bindE (elemAt addrs 0) (\<lambda>a. Return (m\<lparr>Sender := Some a\<rparr>))
                else Return m) (\<lambda>m.
         bindE (sanitizeAddressList E st h ''Reply-To'') (\<lambda>(addrs, err).
         let m = (if err = None \<and> 0 < len addrs then m\<lparr>ReplyTos := addrs\<rparr> else m)
         in bindE (sanitizeAddressList E st h ''To'') (\<lambda>(addrs, err).
         let m = (if err = None then m\<lparr>ToList := addrs\<rparr> else m)
         in bindE (sanitizeAddressList E st h ''Cc'') (\<lambda>(addrs, err).
         let m = (if err = None then m\<lparr>CCList := addrs\<rparr> else m)
         in bindE (sanitizeAddressList E st h ''Bcc'') (\<lambda>(addrs, err).
         let m = (if err = None then m\<lparr>BCCList := addrs\<rparr> else m);
             m = m\<lparr>Time := 0\<rparr>;
             (t, err) = Date E st h;
             m = (if err = None \<and> \<not> IsZero t then m\<lparr>Time := Unix t\<rparr> else m);
             m = m\<lparr>Header := h\<rparr>
         in Return (m, None))))))))"

section \<open>Example collaborators and stores\<close>

text \<open>
  A concrete choice of the collaborators on which the model can be run: headers are
  encoded and decoded as they are, the address-list parser knows one list of two bare
  mailboxes, the date parser one date.
\<close>

definition addrA :: address where
  "addrA = \<lparr>Name = [], Address = ''a@example.com''\<rparr>"

definition addrB :: address where
  "addrB = \<lparr>Name = [], Address = ''b@example.com''\<rparr>"

definition exampleEnv :: env where
  "exampleEnv =
     \<lparr>EncodeHeader = (\<lambda>s. s),
      DecodeHeader = (\<lambda>s. (s, None)),
      ParseAddressList =
        (\<lambda>s. if s = ''<a@example.com>, <b@example.com>'' then (Some [addrA, addrB], None)
             else (None, Some (Err ''mail: cannot parse address list''))),
      ParseDate =
        (\<lambda>s. if s = ''Thu, 01 Jan 1970 00:00:10 +0000'' then (10, None)
             else (zeroTime, Some (Err ''mail: header could not be parsed''))),
      FormatRFC1123Z =
        (\<lambda>t. if t = 10 then ''Thu, 01 Jan 1970 00:00:10 +0000''
             else ''Thu, 01 Jan 1970 00:00:20 +0000''),
      FormatMediaType = (\<lambda>t ps. t),
      AddressString = Address,
      formatAddressList = (\<lambda>l. []),
      parseAddressComment = (\<lambda>s. s),
      InternalIDDomain = ''protonmail.internalid'',
      ConversationIDDomain = ''protonmail.conversationid''\<rparr>"

text \<open>The same collaborators with a header-value decoder that fails on every input,
  returning its input and an error.\<close>

definition failingDecodeEnv :: env where
  "failingDecodeEnv = exampleEnv\<lparr>DecodeHeader := (\<lambda>s. (s, Some (Err ''mime: decoding failed'')))\<rparr>"

text \<open>The same collaborators with an address-list parser that finds no address and
  reports no error.\<close>

definition emptyListEnv :: env where
  "emptyListEnv = exampleEnv\<lparr>ParseAddressList := (\<lambda>s. (Some [], None))\<rparr>"

text \<open>A store with one mapping, at address 0.\<close>

definition oneHeaderStore :: "mimeheader \<Rightarrow> store" where
  "oneHeaderStore m = \<lparr>heap = (\<lambda>r. if r = 0 then m else Map.empty), nextRef = 1\<rparr>"

definition emptyMessage :: message where
  "emptyMessage =
     \<lparr>ID = [], ExternalID = [], ConversationID = [], Subject = [], Sender = None,
      ReplyTos = None, ToList = None, CCList = None, BCCList = None,
      Time = 0, Header = None\<rparr>"

text \<open>Stores and messages for the examples: a header with a valid date and a message with
  another time; a header with a subject and a message without one; a header whose
  references hold the message's own token, and one whose references hold a foreign
  message id that happens to contain the message's id.\<close>

definition datedStore :: store where
  "datedStore = oneHeaderStore [''Date'' \<mapsto> [''Thu, 01 Jan 1970 00:00:10 +0000'']]"

definition datedMessage :: message where
  "datedMessage = emptyMessage\<lparr>Time := 20, Header := Some 0\<rparr>"

definition subjectStore :: store where
  "subjectStore = oneHeaderStore [''Subject'' \<mapsto> [''Hello'']]"

definition headedMessage :: message where
  "headedMessage = emptyMessage\<lparr>Header := Some 0\<rparr>"

definition greetingMessage :: message where
  "greetingMessage = emptyMessage\<lparr>Subject := ''Hi'', Header := Some 0\<rparr>"




definition inlineStore :: store where
  "inlineStore = oneHeaderStore [''Content-Disposition'' \<mapsto> [''inline; filename=logo.png'']]"

definition inlineAttachment :: attachment where
  "inlineAttachment = \<lparr>attName = ''logo.png'', attMIMEType = ''image/png'', attHeader = Some 0\<rparr>"

section \<open>The bracket loop never leaves its string\<close>

declare bracketLoop.simps [simp del]

lemma Index_found: "0 \<le> Index s sub \<Longrightarrow> prefix sub (drop (nat (Index s sub)) s)"
proof (induction s)
  case Nil
  then show ?case by (simp split: if_splits)
next
  case (Cons c s)
  show ?case
  proof (cases "prefix sub (c # s)")
    case True
    then show ?thesis by simp
  next
    case False
    with Cons.prems have r: "0 \<le> Index s sub" and e: "Index (c # s) sub = Index s sub + 1"
      by (simp_all add: Let_def split: if_splits)
    from r have "nat (Index s sub + 1) = Suc (nat (Index s sub))" by simp
    with Cons.IH [OF r] e show ?thesis by simp
  qed
qed

lemma LastIndex_found: "0 \<le> LastIndex s sub \<Longrightarrow> prefix sub (drop (nat (LastIndex s sub)) s)"
proof (induction s)
  case Nil
  then show ?case by (simp split: if_splits)
next
  case (Cons c s)
  show ?case
  proof (cases "0 \<le> LastIndex s sub")
    case True
    then have "nat (LastIndex s sub + 1) = Suc (nat (LastIndex s sub))" by simp
    with Cons.IH [OF True] True show ?thesis by (simp add: Let_def)
  next
    case False
    with Cons.prems show ?thesis by (simp add: Let_def split: if_splits)
  qed
qed

lemma Index_occurs: "prefix sub (drop n s) \<Longrightarrow> n \<le> length s \<Longrightarrow> 0 \<le> Index s sub"
proof (induction s arbitrary: n)
  case Nil
  then show ?case by simp
next
  case (Cons c s)
  show ?case
  proof (cases n)
    case 0
    with Cons.prems show ?thesis by simp
  next
    case (Suc k)
    with Cons.prems have "0 \<le> Index s sub" using Cons.IH [of k] by simp
    then show ?thesis by (simp add: Let_def)
  qed
qed

lemma found_in_range:
  assumes "prefix (c # t) (drop n s)"
  shows "n < length s"
proof (rule ccontr)
  assume "\<not> n < length s"
  then have "drop n s = []" by simp
  with assms show False by simp
qed

lemma bracketLoop_iteration:
  assumes opn: "0 \<le> Index s ''<''" and lt: "Index s ''<'' < LastIndex s ''>''"
  defines "s1 \<equiv> drop (nat (Index s ''<'')) s"
  defines "cls \<equiv> Index s1 ''>''"
  shows "Index s ''<'' < int (length s)" and "prefix ''<'' s1" and "1 \<le> cls" and "cls < int (length s1)"
    and "length (drop (nat cls) s1) < length s"
proof -
  let ?o = "Index s ''<''" and ?l = "LastIndex s ''>''"
  have l0: "0 \<le> ?l" using opn lt by simp
  have pl: "prefix ''>'' (drop (nat ?l) s)" using LastIndex_found [OF l0] .
  then have ll: "nat ?l < length s" by (rule found_in_range)
  with opn lt show o_len: "?o < int (length s)" by simp
  show p1: "prefix ''<'' s1" unfolding s1_def using Index_found [OF opn] .
  have "drop (nat ?l - nat ?o) s1 = drop (nat ?l) s"
    using opn lt by (simp add: s1_def)
  with pl have "prefix ''>'' (drop (nat ?l - nat ?o) s1)" by simp
  moreover have "nat ?l - nat ?o \<le> length s1" using ll by (simp add: s1_def)
  ultimately have c0: "0 \<le> cls" unfolding cls_def by (rule Index_occurs)
  have pc: "prefix ''>'' (drop (nat cls) s1)" using Index_found [of s1 "''>''"] c0 by (simp add: cls_def)
  then have "nat cls < length s1" by (rule found_in_range)
  with c0 show c_len: "cls < int (length s1)" by simp
  show c1: "1 \<le> cls"
  proof (rule ccontr)
    assume "\<not> 1 \<le> cls"
    with c0 have "cls = 0" by simp
    with pc p1 show False by (cases s1) auto
  qed
  from c1 c_len show "length (drop (nat cls) s1) < length s" by (simp add: s1_def)
qed

lemma bracketLoop_no_panic:
  "opn = Index s ''<'' \<Longrightarrow> lst = LastIndex s ''>'' \<Longrightarrow> bracketLoop opn lst s acc \<noteq> None"
proof (induction opn lst s acc rule: bracketLoop.induct)
  case (1 opn lst addrStr addrList)
  show ?case
  proof (cases "opn < lst \<and> 0 \<le> opn")
    case False
    then have "bracketLoop opn lst addrStr addrList = Some addrList"
      by (subst bracketLoop.simps) auto
    then show ?thesis by simp
  next
    case True
    define s1 where "s1 = drop (nat opn) addrStr"
    define cls where "cls = Index s1 ''>''"
    define s2 where "s2 = drop (nat cls) s1"
    have o: "0 \<le> Index addrStr ''<''" and lt: "Index addrStr ''<'' < LastIndex addrStr ''>''"
      using True "1.prems" by simp_all
    note it = bracketLoop_iteration [OF o lt]
    have a: "\<not> int (length addrStr) < opn" using it(1) "1.prems" by simp
    from "1.prems" have opn_eq: "opn = Index addrStr ''<''" by simp
    have c1: "1 \<le> cls" unfolding cls_def s1_def opn_eq by (rule it(3))
    have c2: "cls < int (length s1)" unfolding cls_def s1_def opn_eq by (rule it(4))
    have b: "\<not> (cls + 1 < 0 \<or> int (length s1) < cls + 1)" using c1 c2 by simp
    have c: "\<not> (cls < 0 \<or> int (length s1) < cls)" using c1 c2 by simp
    have "bracketLoop (Index s2 ''<'') (LastIndex s2 ''>'') s2
            (addrList @ [take (nat (cls + 1)) s1]) \<noteq> None"
      using "1.IH" [OF True a s1_def cls_def b c s2_def refl refl] .
    moreover have "bracketLoop opn lst addrStr addrList =
        bracketLoop (Index s2 ''<'') (LastIndex s2 ''>'') s2 (addrList @ [take (nat (cls + 1)) s1])"
      using True a b c by (subst bracketLoop.simps) (simp add: Let_def s1_def cls_def s2_def)
    ultimately show ?thesis by simp
  qed
qed

lemma sanitizeAddressList_returns: "\<exists>addrs err. sanitizeAddressList E st h field = Return (addrs, err)"
proof -
  have "sanitizeAddressList E st h field \<noteq> Panic"
    using bracketLoop_no_panic [OF refl refl, of "Get st h field" "[]"]
    by (auto simp: sanitizeAddressList_def Let_def split: prod.splits option.splits)
  then show ?thesis by (cases "sanitizeAddressList E st h field") auto
qed

section \<open>Canonical keys of the fields this file names\<close>

lemma canon_keys:
  "CanonicalMIMEHeaderKey ''Subject'' = ''Subject''"
  "CanonicalMIMEHeaderKey ''From'' = ''From''"
  "CanonicalMIMEHeaderKey ''Reply-To'' = ''Reply-To''"
  "CanonicalMIMEHeaderKey ''To'' = ''To''"
  "CanonicalMIMEHeaderKey ''Cc'' = ''Cc''"
  "CanonicalMIMEHeaderKey ''Bcc'' = ''Bcc''"
  "CanonicalMIMEHeaderKey ''X-Pm-Date'' = ''X-Pm-Date''"
  "CanonicalMIMEHeaderKey ''Date'' = ''Date''"
  "CanonicalMIMEHeaderKey ''X-Pm-External-Id'' = ''X-Pm-External-Id''"
  "CanonicalMIMEHeaderKey ''Message-Id'' = ''Message-Id''"
  "CanonicalMIMEHeaderKey ''X-Pm-Internal-Id'' = ''X-Pm-Internal-Id''"
  "CanonicalMIMEHeaderKey ''References'' = ''References''"
  "CanonicalMIMEHeaderKey ''X-Pm-ConversationID-Id'' = ''X-Pm-Conversationid-Id''"
  "CanonicalMIMEHeaderKey ''Content-Type'' = ''Content-Type''"
  "CanonicalMIMEHeaderKey ''Content-Transfer-Encoding'' = ''Content-Transfer-Encoding''"
  "CanonicalMIMEHeaderKey ''Content-Disposition'' = ''Content-Disposition''"
  "CanonicalMIMEHeaderKey ''Content-Id'' = ''Content-Id''"
  "CanonicalMIMEHeaderKey ''Content-Description'' = ''Content-Description''"
  "CanonicalMIMEHeaderKey ''Content-Location'' = ''Content-Location''"
  "CanonicalMIMEHeaderKey ''to'' = ''To''"
  by code_simp+

section \<open>The address sanitizer\<close>

text \<open>
  Claim C5. If the raw value of the field is not empty and the header-value decoder fails
  on it, \<open>sanitizeAddressList\<close> returns that decode error as its own error, and nil
  addresses.
\<close>

theorem sanitizeAddressList_decode_failure:
  assumes "Get st h field \<noteq> []"
    and "snd (DecodeHeader E (Get st h field)) = Some e"
  shows "sanitizeAddressList E st h field = Return (None, Some e)"
proof -
  obtain d where "DecodeHeader E (Get st h field) = (d, Some e)"
    using assms(2) by (cases "DecodeHeader E (Get st h field)") simp
  with assms(1) show ?thesis by (simp add: sanitizeAddressList_def)
qed

text \<open>The theorem at the field \<open>to\<close> of a header with a \<open>To\<close> value, under the decoder
  that always fails.\<close>

theorem sanitizeAddressList_decode_failure_witness:
  "Get (oneHeaderStore [''To'' \<mapsto> [''x@example.com'']]) (Some 0) ''to'' \<noteq> []
   \<and> snd (DecodeHeader failingDecodeEnv (Get (oneHeaderStore [''To'' \<mapsto> [''x@example.com'']]) (Some 0) ''to''))
       = Some (Err ''mime: decoding failed'')
   \<and> sanitizeAddressList failingDecodeEnv (oneHeaderStore [''To'' \<mapsto> [''x@example.com'']]) (Some 0) ''to''
       = Return (None, Some (Err ''mime: decoding failed''))"
proof -
  have a: "Get (oneHeaderStore [''To'' \<mapsto> [''x@example.com'']]) (Some 0) ''to'' \<noteq> []"
    by (simp add: Get_def oneHeaderStore_def canon_keys)
  have b: "snd (DecodeHeader failingDecodeEnv (Get (oneHeaderStore [''To'' \<mapsto> [''x@example.com'']]) (Some 0) ''to''))
       = Some (Err ''mime: decoding failed'')"
    by (simp add: failingDecodeEnv_def exampleEnv_def)
  from a b sanitizeAddressList_decode_failure [OF a b] show ?thesis by simp
qed







text \<open>
  Claim C9. \<open>sanitizeAddressList\<close> is total: \<open>bracketLoop\<close> is a function whose termination
  is proved above, by the length of the scanned suffix, and the call always returns, never
  panics. Started as the code starts it, on the first opening and the last closing bracket
  of a string, the loop takes no slice out of range. In an iteration (an opening bracket
  before the last closing bracket) the suffix taken at \<open>open\<close> begins with the opening
  bracket, the closing bracket found in it is at index 1 at least and inside the suffix,
  and the suffix kept for the next iteration is shorter than the string; the next
  iteration starts again on the first opening and the last closing bracket of what is left.
\<close>

theorem sanitizeAddressList_total:
  "(\<exists>r. sanitizeAddressList E st h field = Return r)
   \<and> bracketLoop (Index s ''<'') (LastIndex s ''>'') s acc \<noteq> None
   \<and> (0 \<le> Index s ''<'' \<and> Index s ''<'' < LastIndex s ''>'' \<longrightarrow>
        Index s ''<'' < int (length s)
        \<and> prefix ''<'' (drop (nat (Index s ''<'')) s)
        \<and> 1 \<le> Index (drop (nat (Index s ''<'')) s) ''>''
        \<and> Index (drop (nat (Index s ''<'')) s) ''>'' < int (length (drop (nat (Index s ''<'')) s))
        \<and> length (drop (nat (Index (drop (nat (Index s ''<'')) s) ''>'')) (drop (nat (Index s ''<'')) s))
            < length s)"
proof (intro conjI impI)
  show "\<exists>r. sanitizeAddressList E st h field = Return r"
    using sanitizeAddressList_returns [of E st h field] by blast
  show "bracketLoop (Index s ''<'') (LastIndex s ''>'') s acc \<noteq> None"
    by (rule bracketLoop_no_panic [OF refl refl])
next
  assume a: "0 \<le> Index s ''<'' \<and> Index s ''<'' < LastIndex s ''>''"
  then have o: "0 \<le> Index s ''<''" and lt: "Index s ''<'' < LastIndex s ''>''" by simp_all
  show "Index s ''<'' < int (length s)" by (rule bracketLoop_iteration(1) [OF o lt])
  show "prefix ''<'' (drop (nat (Index s ''<'')) s)" by (rule bracketLoop_iteration(2) [OF o lt])
  show "1 \<le> Index (drop (nat (Index s ''<'')) s) ''>''" by (rule bracketLoop_iteration(3) [OF o lt])
  show "Index (drop (nat (Index s ''<'')) s) ''>'' < int (length (drop (nat (Index s ''<'')) s))"
    by (rule bracketLoop_iteration(4) [OF o lt])
  show "length (drop (nat (Index (drop (nat (Index s ''<'')) s) ''>'')) (drop (nat (Index s ''<'')) s))
            < length s" by (rule bracketLoop_iteration(5) [OF o lt])
qed

text \<open>The theorem on a string with two bracketed spans.\<close>

theorem sanitizeAddressList_total_witness:
  "0 \<le> Index ''x <a>, <b>'' ''<'' \<and> Index ''x <a>, <b>'' ''<'' < LastIndex ''x <a>, <b>'' ''>''
   \<and> 1 \<le> Index (drop (nat (Index ''x <a>, <b>'' ''<'')) ''x <a>, <b>'') ''>''
   \<and> length (drop (nat (Index (drop (nat (Index ''x <a>, <b>'' ''<'')) ''x <a>, <b>'') ''>''))
         (drop (nat (Index ''x <a>, <b>'' ''<'')) ''x <a>, <b>'')) < length ''x <a>, <b>''
   \<and> bracketLoop (Index ''x <a>, <b>'' ''<'') (LastIndex ''x <a>, <b>'' ''>'') ''x <a>, <b>'' [] \<noteq> None"
proof -
  have h: "0 \<le> Index ''x <a>, <b>'' ''<'' \<and> Index ''x <a>, <b>'' ''<'' < LastIndex ''x <a>, <b>'' ''>''"
    by simp
  with sanitizeAddressList_total [of exampleEnv "oneHeaderStore Map.empty" None "[]" "''x <a>, <b>''" "[]"]
  show ?thesis by blast
qed

section \<open>The header parser\<close>

text \<open>\<open>parseHeader\<close> returns the message built field by field; the sender and the
  reply-to list stay as \<open>NewMessage\<close> made them when the sanitized list is empty.\<close>

lemma elemAt_guarded: "0 < len addrs \<Longrightarrow> \<exists>a. elemAt addrs 0 = Return a"
  by (cases addrs) auto

lemma parseHeader_returns:
  "\<exists>m. parseHeader E st h = Return (m, None) \<and> Header m = h
     \<and> (\<forall>addrs. sanitizeAddressList E st h ''From'' = Return (addrs, None) \<longrightarrow> len addrs = 0
           \<longrightarrow> Sender m = Sender NewMessage)
     \<and> (\<forall>addrs. sanitizeAddressList E st h ''Reply-To'' = Return (addrs, None) \<longrightarrow> len addrs = 0
           \<longrightarrow> ReplyTos m = ReplyTos NewMessage)"
proof -
  obtain fa fe where f: "sanitizeAddressList E st h ''From'' = Return (fa, fe)"
    using sanitizeAddressList_returns by blast
  obtain ra re where r: "sanitizeAddressList E st h ''Reply-To'' = Return (ra, re)"
    using sanitizeAddressList_returns by blast
  obtain ta te where t: "sanitizeAddressList E st h ''To'' = Return (ta, te)"
    using sanitizeAddressList_returns by blast
  obtain ca ce where c: "sanitizeAddressList E st h ''Cc'' = Return (ca, ce)"
    using sanitizeAddressList_returns by blast
  obtain ba be where b: "sanitizeAddressList E st h ''Bcc'' = Return (ba, be)"
    using sanitizeAddressList_returns by blast
  obtain s se where s: "DecodeHeader E (Get st h ''Subject'') = (s, se)"
    by (cases "DecodeHeader E (Get st h ''Subject'')")
  obtain d de where d: "Date E st h = (d, de)"
    by (cases "Date E st h")
  obtain a where a: "fe = None \<and> 0 < len fa \<Longrightarrow> elemAt fa 0 = Return a"
    using elemAt_guarded [of fa] by (cases "0 < len fa") auto
  define m1 where "m1 = (if se = None then NewMessage\<lparr>Subject := s\<rparr> else NewMessage)"
  define m2 where "m2 = (if fe = None \<and> 0 < len fa then m1\<lparr>Sender := Some a\<rparr> else m1)"
  define m3 where "m3 = (if re = None \<and> 0 < len ra then m2\<lparr>ReplyTos := ra\<rparr> else m2)"
  define m4 where "m4 = (if te = None then m3\<lparr>ToList := ta\<rparr> else m3)"
  define m5 where "m5 = (if ce = None then m4\<lparr>CCList := ca\<rparr> else m4)"
  define m6 where "m6 = (if be = None then m5\<lparr>BCCList := ba\<rparr> else m5)"
  define m7 where "m7 = (if de = None \<and> \<not> IsZero d then m6\<lparr>Time := 0, Time := Unix d\<rparr> else m6\<lparr>Time := 0\<rparr>)"
  have from_step: "(if fe = None \<and> 0 < len fa
          then bindE (elemAt fa 0) (\<lambda>a. Return (m1\<lparr>Sender := Some a\<rparr>))
          else Return m1) = Return m2"
    using a by (simp add: m2_def)
  have "parseHeader E st h = Return (m7\<lparr>Header := h\<rparr>, None)"
    unfolding parseHeader_def Let_def f r t c b s d prod.case bindE.simps
    unfolding m1_def [symmetric] from_step bindE.simps
    unfolding m3_def [symmetric] m4_def [symmetric] m5_def [symmetric] m6_def [symmetric]
    by (simp add: m7_def)
  moreover have "Sender m7 = Sender m2" and "ReplyTos m7 = ReplyTos m3"
    by (simp_all add: m7_def m6_def m5_def m4_def m3_def)
  moreover have "Sender m1 = Sender NewMessage" and "ReplyTos m2 = ReplyTos NewMessage"
    by (simp_all add: m1_def m2_def)
  moreover have "len fa = 0 \<Longrightarrow> m2 = m1" and "len ra = 0 \<Longrightarrow> m3 = m2"
    by (simp_all add: m2_def m3_def)
  ultimately show ?thesis using f r by auto
qed

text \<open>
  Claim C7. For every header mapping \<open>parseHeader\<close> returns a Message and a nil error:
  no sanitizer or decoder failure stops it. The Header field of the Message is the
  mapping passed in, the same reference; for a mapping \<open>Some r\<close> it is therefore not nil
  (a nil \<open>mail.Header\<close>, no mapping at all, is passed on as nil).
\<close>

theorem parseHeader_never_fails:
  "(\<exists>m. parseHeader E st h = Return (m, None) \<and> Header m = h)
   \<and> (\<exists>m. parseHeader E st (Some r) = Return (m, None) \<and> Header m = Some r \<and> Header m \<noteq> None)"
proof
  show "\<exists>m. parseHeader E st h = Return (m, None) \<and> Header m = h"
    using parseHeader_returns [of E st h] by blast
  show "\<exists>m. parseHeader E st (Some r) = Return (m, None) \<and> Header m = Some r \<and> Header m \<noteq> None"
    using parseHeader_returns [of E st "Some r"] by auto
qed

text \<open>
  Claim C10. \<open>parseHeader\<close> reads \<open>addrs[0]\<close> only when \<open>len(addrs) > 0\<close>: it returns
  without a panic on every header, and when the \<open>From\<close> field sanitizes without error to an
  empty list the Sender stays nil; when the \<open>Reply-To\<close> field does, \<open>ReplyTos\<close> stays as
  \<open>NewMessage\<close> made it.
\<close>

theorem parseHeader_guards_index:
  "\<exists>m. parseHeader E st h = Return (m, None)
     \<and> (\<forall>addrs. sanitizeAddressList E st h ''From'' = Return (addrs, None) \<longrightarrow> len addrs = 0
           \<longrightarrow> Sender m = None)
     \<and> (\<forall>addrs. sanitizeAddressList E st h ''Reply-To'' = Return (addrs, None) \<longrightarrow> len addrs = 0
           \<longrightarrow> ReplyTos m = ReplyTos NewMessage)"
proof -
  have "Sender NewMessage = None" by (simp add: NewMessage_def)
  with parseHeader_returns [of E st h] show ?thesis by auto
qed

text \<open>Under the parser that finds no address, both fields sanitize to an empty list.\<close>

lemma sanitize_emptyListEnv:
  "sanitizeAddressList emptyListEnv
     (oneHeaderStore [''From'' \<mapsto> [''nobody''], ''Reply-To'' \<mapsto> [''nobody'']]) (Some 0) ''From''
     = Return (Some [], None)"
  "sanitizeAddressList emptyListEnv
     (oneHeaderStore [''From'' \<mapsto> [''nobody''], ''Reply-To'' \<mapsto> [''nobody'']]) (Some 0) ''Reply-To''
     = Return (Some [], None)"
  by (simp_all add: sanitizeAddressList_def Get_def oneHeaderStore_def canon_keys
      emptyListEnv_def exampleEnv_def)

theorem parseHeader_guards_index_witness:
  "sanitizeAddressList emptyListEnv
     (oneHeaderStore [''From'' \<mapsto> [''nobody''], ''Reply-To'' \<mapsto> [''nobody'']]) (Some 0) ''From''
     = Return (Some [], None)
   \<and> len (Some ([] :: address list)) = 0
   \<and> (\<exists>m. parseHeader emptyListEnv
          (oneHeaderStore [''From'' \<mapsto> [''nobody''], ''Reply-To'' \<mapsto> [''nobody'']]) (Some 0)
          = Return (m, None) \<and> Sender m = None \<and> ReplyTos m = None)"
proof -
  let ?st = "oneHeaderStore [''From'' \<mapsto> [''nobody''], ''Reply-To'' \<mapsto> [''nobody'']]"
  obtain m where m: "parseHeader emptyListEnv ?st (Some 0) = Return (m, None)"
    and s: "\<forall>addrs. sanitizeAddressList emptyListEnv ?st (Some 0) ''From'' = Return (addrs, None)
               \<longrightarrow> len addrs = 0 \<longrightarrow> Sender m = None"
    and r: "\<forall>addrs. sanitizeAddressList emptyListEnv ?st (Some 0) ''Reply-To'' = Return (addrs, None)
               \<longrightarrow> len addrs = 0 \<longrightarrow> ReplyTos m = ReplyTos NewMessage"
    using parseHeader_guards_index [of emptyListEnv ?st "Some 0"] by blast
  from s sanitize_emptyListEnv(1) have "Sender m = None" by simp
  moreover from r sanitize_emptyListEnv(2) have "ReplyTos m = None" by (simp add: NewMessage_def)
  ultimately show ?thesis using m sanitize_emptyListEnv(1) by auto
qed

section \<open>The header builder\<close>

subsection \<open>Reading after writing\<close>

lemma Get_Set:
  "Get (Set st r k v) h k' =
     (if h = Some r \<and> CanonicalMIMEHeaderKey k = CanonicalMIMEHeaderKey k' then v else Get st h k')"
  by (cases h) (auto simp: Get_def Set_def)

lemma Get_make:
  "Get (snd (makeMIMEHeader st)) h k = (if h = Some (nextRef st) then [] else Get st h k)"
  by (cases h) (auto simp: Get_def makeMIMEHeader_def)

lemma Get_nil: "Get st None k = []"
  by (simp add: Get_def)

subsection \<open>What each block of GetHeader does to the fields\<close>

lemma setStandardFields_Subject:
  "Get (setStandardFields E msg h st) (Some h) ''Subject'' = EncodeHeader E (Subject msg)"
  by (simp add: setStandardFields_def Let_def Get_Set canon_keys split: option.splits)

lemma setStandardFields_From:
  "Get (setStandardFields E msg h st) (Some h) ''From'' =
     (case Sender msg of None \<Rightarrow> Get st (Some h) ''From''
      | Some a \<Rightarrow> EncodeHeader E (AddressString E a))"
  by (simp add: setStandardFields_def Let_def Get_Set canon_keys split: option.splits)

lemma setStandardFields_lists:
  "Get (setStandardFields E msg h st) (Some h) ''Reply-To'' =
     (if 0 < len (ReplyTos msg) then EncodeHeader E (formatAddressList E (ReplyTos msg))
      else Get st (Some h) ''Reply-To'')"
  "Get (setStandardFields E msg h st) (Some h) ''To'' =
     (if 0 < len (ToList msg) then EncodeHeader E (formatAddressList E (ToList msg))
      else Get st (Some h) ''To'')"
  "Get (setStandardFields E msg h st) (Some h) ''Cc'' =
     (if 0 < len (CCList msg) then EncodeHeader E (formatAddressList E (CCList msg))
      else Get st (Some h) ''Cc'')"
  "Get (setStandardFields E msg h st) (Some h) ''Bcc'' =
     (if 0 < len (BCCList msg) then EncodeHeader E (formatAddressList E (BCCList msg))
      else Get st (Some h) ''Bcc'')"
  by (simp_all add: setStandardFields_def Let_def Get_Set canon_keys split: option.splits)

lemma setDateFields_XPmDate:
  "0 < Time msg \<Longrightarrow> Get (setDateFields E msg h st) (Some h) ''X-Pm-Date'' = FormatRFC1123Z E (Time msg)"
  by (simp add: setDateFields_def Let_def Get_Set canon_keys split: prod.splits)

lemma setDateFields_Date:
  assumes "0 < Time msg"
  shows "Get (setDateFields E msg h st) (Some h) ''Date'' =
     (if Get st (Header msg) ''Date'' = []
         \<or> snd (ParseDate E (Get st (Header msg) ''Date'')) \<noteq> None
         \<or> IsZero (fst (ParseDate E (Get st (Header msg) ''Date'')))
      then FormatRFC1123Z E (Time msg) else Get st (Some h) ''Date'')"
  using assms
  by (simp add: setDateFields_def Let_def Get_Set canon_keys Date_def split: prod.splits)




lemma setStandardFields_keeps:
  "Get (setStandardFields E msg h st) h' ''Date'' = Get st h' ''Date''"
  "Get (setStandardFields E msg h st) h' ''X-Pm-Date'' = Get st h' ''X-Pm-Date''"
  "Get (setStandardFields E msg h st) h' ''References'' = Get st h' ''References''"
  "Get (setStandardFields E msg h st) h' ''Message-Id'' = Get st h' ''Message-Id''"
  by (simp_all add: setStandardFields_def Let_def Get_Set canon_keys split: option.splits prod.splits)

lemma setDateFields_keeps:
  "Get (setDateFields E msg h st) h' ''References'' = Get st h' ''References''"
  "Get (setDateFields E msg h st) h' ''Subject'' = Get st h' ''Subject''"
  "Get (setDateFields E msg h st) h' ''From'' = Get st h' ''From''"
  "Get (setDateFields E msg h st) h' ''Reply-To'' = Get st h' ''Reply-To''"
  "Get (setDateFields E msg h st) h' ''To'' = Get st h' ''To''"
  "Get (setDateFields E msg h st) h' ''Cc'' = Get st h' ''Cc''"
  "Get (setDateFields E msg h st) h' ''Bcc'' = Get st h' ''Bcc''"
  by (simp_all add: setDateFields_def Let_def Get_Set canon_keys split: option.splits prod.splits)

lemma setExternalID_keeps:
  "Get (setExternalID msg h st) h' ''X-Pm-Date'' = Get st h' ''X-Pm-Date''"
  "Get (setExternalID msg h st) h' ''Date'' = Get st h' ''Date''"
  "Get (setExternalID msg h st) h' ''References'' = Get st h' ''References''"
  "Get (setExternalID msg h st) h' ''Subject'' = Get st h' ''Subject''"
  "Get (setExternalID msg h st) h' ''From'' = Get st h' ''From''"
  "Get (setExternalID msg h st) h' ''Reply-To'' = Get st h' ''Reply-To''"
  "Get (setExternalID msg h st) h' ''To'' = Get st h' ''To''"
  "Get (setExternalID msg h st) h' ''Cc'' = Get st h' ''Cc''"
  "Get (setExternalID msg h st) h' ''Bcc'' = Get st h' ''Bcc''"
  by (simp_all add: setExternalID_def Let_def Get_Set canon_keys split: option.splits prod.splits)

lemma setInternalID_keeps:
  "Get (setInternalID E msg h st) h' ''X-Pm-Date'' = Get st h' ''X-Pm-Date''"
  "Get (setInternalID E msg h st) h' ''Date'' = Get st h' ''Date''"
  "Get (setInternalID E msg h st) h' ''Subject'' = Get st h' ''Subject''"
  "Get (setInternalID E msg h st) h' ''From'' = Get st h' ''From''"
  "Get (setInternalID E msg h st) h' ''Reply-To'' = Get st h' ''Reply-To''"
  "Get (setInternalID E msg h st) h' ''To'' = Get st h' ''To''"
  "Get (setInternalID E msg h st) h' ''Cc'' = Get st h' ''Cc''"
  "Get (setInternalID E msg h st) h' ''Bcc'' = Get st h' ''Bcc''"
  by (simp_all add: setInternalID_def Let_def Get_Set canon_keys split: option.splits prod.splits)

lemma setConversationID_keeps:
  "Get (setConversationID E msg h st) h' ''X-Pm-Date'' = Get st h' ''X-Pm-Date''"
  "Get (setConversationID E msg h st) h' ''Date'' = Get st h' ''Date''"
  "Get (setConversationID E msg h st) h' ''X-Pm-Internal-Id'' = Get st h' ''X-Pm-Internal-Id''"
  "Get (setConversationID E msg h st) h' ''Subject'' = Get st h' ''Subject''"
  "Get (setConversationID E msg h st) h' ''From'' = Get st h' ''From''"
  "Get (setConversationID E msg h st) h' ''Reply-To'' = Get st h' ''Reply-To''"
  "Get (setConversationID E msg h st) h' ''To'' = Get st h' ''To''"
  "Get (setConversationID E msg h st) h' ''Cc'' = Get st h' ''Cc''"
  "Get (setConversationID E msg h st) h' ''Bcc'' = Get st h' ''Bcc''"
  by (simp_all add: setConversationID_def Let_def Get_Set canon_keys split: option.splits prod.splits)

subsection \<open>GetHeader as a whole\<close>



lemma GetHeader_ref:
  "GetHeader E st msg = (h, st') \<Longrightarrow> h = (case Header msg of None \<Rightarrow> nextRef st | Some r \<Rightarrow> r)"
  by (auto simp: GetHeader_def Let_def makeMIMEHeader_def split: prod.splits)

lemma GetHeader_stages:
  "GetHeader E st msg = (h, st') \<Longrightarrow>
   st' = setConversationID E msg h (setInternalID E msg h (setExternalID msg h
           (setDateFields E msg h (setStandardFields E msg h (snd (makeMIMEHeader st))))))"
  by (auto simp: GetHeader_def Let_def split: prod.splits)


lemma GetHeader_before:
  assumes "GetHeader E st msg = (h, st')" and "allocated st (Header msg)"
  shows "Get (snd (makeMIMEHeader st)) (Some h) k = Get st (Header msg) k"
    and "Get (snd (makeMIMEHeader st)) (Header msg) k = Get st (Header msg) k"
    and "Header msg = None \<or> Header msg = Some h"
  using GetHeader_ref [OF assms(1)] assms(2)
  by (cases "Header msg"; simp add: Get_make Get_nil)+

lemma GetHeader_standard_fields:
  assumes g: "GetHeader E st msg = (h, st')" and a: "allocated st (Header msg)"
  shows "Get st' (Some h) ''Subject'' = EncodeHeader E (Subject msg)"
    and "Get st' (Some h) ''From'' =
           (case Sender msg of None \<Rightarrow> Get st (Header msg) ''From''
            | Some a \<Rightarrow> EncodeHeader E (AddressString E a))"
    and "Get st' (Some h) ''Reply-To'' =
           (if 0 < len (ReplyTos msg) then EncodeHeader E (formatAddressList E (ReplyTos msg))
            else Get st (Header msg) ''Reply-To'')"
    and "Get st' (Some h) ''To'' =
           (if 0 < len (ToList msg) then EncodeHeader E (formatAddressList E (ToList msg))
            else Get st (Header msg) ''To'')"
    and "Get st' (Some h) ''Cc'' =
           (if 0 < len (CCList msg) then EncodeHeader E (formatAddressList E (CCList msg))
            else Get st (Header msg) ''Cc'')"
    and "Get st' (Some h) ''Bcc'' =
           (if 0 < len (BCCList msg) then EncodeHeader E (formatAddressList E (BCCList msg))
            else Get st (Header msg) ''Bcc'')"
  unfolding GetHeader_stages [OF g]
  by (simp_all add: setConversationID_keeps setInternalID_keeps setExternalID_keeps
      setDateFields_keeps setStandardFields_Subject setStandardFields_From
      setStandardFields_lists GetHeader_before(1) [OF g a] split: option.splits)

lemma GetHeader_date_fields:
  assumes g: "GetHeader E st msg = (h, st')" and a: "allocated st (Header msg)"
    and t: "0 < Time msg"
  shows "Get st' (Some h) ''X-Pm-Date'' = FormatRFC1123Z E (Time msg)"
    and "Get st' (Some h) ''Date'' =
     (if Get st (Header msg) ''Date'' = []
         \<or> snd (ParseDate E (Get st (Header msg) ''Date'')) \<noteq> None
         \<or> IsZero (fst (ParseDate E (Get st (Header msg) ''Date'')))
      then FormatRFC1123Z E (Time msg) else Get st (Header msg) ''Date'')"
  unfolding GetHeader_stages [OF g]
  by (simp_all add: setConversationID_keeps setInternalID_keeps setExternalID_keeps
      setDateFields_XPmDate [OF t] setDateFields_Date [OF t] setStandardFields_keeps
      GetHeader_before(1,2) [OF g a])


subsection \<open>Substrings\<close>








subsection \<open>Date fields\<close>

text \<open>
  Claim C3. For a Message with \<open>Time > 0\<close>, \<open>GetHeader\<close> sets \<open>X-Pm-Date\<close> to the
  RFC 1123 (numeric zone) rendering of \<open>Time\<close>. The \<open>Date\<close> field gets that same value
  if the \<open>Date\<close> field of the message's header was absent (empty), unparsable or parsed
  to the zero time; otherwise it is left as it was, whatever \<open>Time\<close> is.
\<close>

theorem GetHeader_date:
  assumes "0 < Time msg" and "allocated st (Header msg)" and "GetHeader E st msg = (h, st')"
  shows "Get st' (Some h) ''X-Pm-Date'' = FormatRFC1123Z E (Time msg)
     \<and> (let old = Get st (Header msg) ''Date'';
             invalid = (old = [] \<or> snd (ParseDate E old) \<noteq> None \<or> IsZero (fst (ParseDate E old)))
         in (invalid \<longrightarrow> Get st' (Some h) ''Date'' = FormatRFC1123Z E (Time msg))
            \<and> (\<not> invalid \<longrightarrow> Get st' (Some h) ''Date'' = old))"
  using GetHeader_date_fields [OF assms(3) assms(2) assms(1)] by (simp add: Let_def)

text \<open>A header with a valid date of second 10 and a message of second 20: \<open>X-Pm-Date\<close>
  is second 20 and \<open>Date\<close> stays second 10.\<close>

theorem GetHeader_date_witness:
  "0 < Time datedMessage \<and> allocated datedStore (Header datedMessage)
   \<and> Get (snd (GetHeader exampleEnv datedStore datedMessage))
        (Some (fst (GetHeader exampleEnv datedStore datedMessage))) ''X-Pm-Date''
       = ''Thu, 01 Jan 1970 00:00:20 +0000''
   \<and> Get (snd (GetHeader exampleEnv datedStore datedMessage))
        (Some (fst (GetHeader exampleEnv datedStore datedMessage))) ''Date''
       = ''Thu, 01 Jan 1970 00:00:10 +0000''"
proof -
  have t: "0 < Time datedMessage" by (simp add: datedMessage_def emptyMessage_def)
  have a: "allocated datedStore (Header datedMessage)"
    by (simp add: datedMessage_def emptyMessage_def datedStore_def oneHeaderStore_def)
  have g: "GetHeader exampleEnv datedStore datedMessage =
             (fst (GetHeader exampleEnv datedStore datedMessage),
              snd (GetHeader exampleEnv datedStore datedMessage))" by simp
  have old: "Get datedStore (Header datedMessage) ''Date'' = ''Thu, 01 Jan 1970 00:00:10 +0000''"
    by (simp add: datedMessage_def emptyMessage_def datedStore_def oneHeaderStore_def Get_def canon_keys)
  have p: "ParseDate exampleEnv ''Thu, 01 Jan 1970 00:00:10 +0000'' = (10, None)"
    by (simp add: exampleEnv_def)
  have f: "FormatRFC1123Z exampleEnv (Time datedMessage) = ''Thu, 01 Jan 1970 00:00:20 +0000''"
    by (simp add: exampleEnv_def datedMessage_def emptyMessage_def)
  have z: "\<not> IsZero 10" by (simp add: IsZero_def zeroTime_def)
  from GetHeader_date [OF t a g] t a show ?thesis
    by (simp add: Let_def old p f z)
qed

subsection \<open>Standard fields\<close>

text \<open>
  Claim C6, as amended. \<open>GetHeader\<close> always sets \<open>Subject\<close> to the encoded
  \<open>msg.Subject\<close>, also when that is empty. \<open>From\<close> is left as it was when there is no
  sender, and \<open>Reply-To\<close>, \<open>To\<close>, \<open>Cc\<close> and \<open>Bcc\<close> when the respective list is
  empty.
\<close>

theorem GetHeader_standard:
  assumes "allocated st (Header msg)" and "GetHeader E st msg = (h, st')"
  shows "Get st' (Some h) ''Subject'' = EncodeHeader E (Subject msg)
     \<and> (Sender msg = None \<longrightarrow> Get st' (Some h) ''From'' = Get st (Header msg) ''From'')
     \<and> (len (ReplyTos msg) = 0 \<longrightarrow> Get st' (Some h) ''Reply-To'' = Get st (Header msg) ''Reply-To'')
     \<and> (len (ToList msg) = 0 \<longrightarrow> Get st' (Some h) ''To'' = Get st (Header msg) ''To'')
     \<and> (len (CCList msg) = 0 \<longrightarrow> Get st' (Some h) ''Cc'' = Get st (Header msg) ''Cc'')
     \<and> (len (BCCList msg) = 0 \<longrightarrow> Get st' (Some h) ''Bcc'' = Get st (Header msg) ''Bcc'')"
  using GetHeader_standard_fields [OF assms(2) assms(1)] by simp

text \<open>A message with a subject and no recipients, on a header with another subject.\<close>

theorem GetHeader_standard_witness:
  "allocated subjectStore (Header greetingMessage)
   \<and> Get (snd (GetHeader exampleEnv subjectStore greetingMessage))
        (Some (fst (GetHeader exampleEnv subjectStore greetingMessage))) ''Subject'' = ''Hi''
   \<and> Get (snd (GetHeader exampleEnv subjectStore greetingMessage))
        (Some (fst (GetHeader exampleEnv subjectStore greetingMessage))) ''To'' = []"
proof -
  have a: "allocated subjectStore (Header greetingMessage)"
    by (simp add: greetingMessage_def emptyMessage_def subjectStore_def oneHeaderStore_def)
  have g: "GetHeader exampleEnv subjectStore greetingMessage =
             (fst (GetHeader exampleEnv subjectStore greetingMessage),
              snd (GetHeader exampleEnv subjectStore greetingMessage))" by simp
  have e: "EncodeHeader exampleEnv (Subject greetingMessage) = ''Hi''"
    by (simp add: exampleEnv_def greetingMessage_def emptyMessage_def)
  have l: "len (ToList greetingMessage) = 0"
    by (simp add: greetingMessage_def emptyMessage_def)
  have old: "Get subjectStore (Header greetingMessage) ''To'' = []"
    by (simp add: greetingMessage_def emptyMessage_def subjectStore_def oneHeaderStore_def Get_def canon_keys)
  from GetHeader_standard [OF a g] a show ?thesis
    by (simp add: e l old)
qed

text \<open>A message with an empty subject on a header whose subject is \<open>Hello\<close>: the subject
  built is the encoding of the empty string, not \<open>Hello\<close>.\<close>

theorem GetHeader_empty_subject_counterexample:
  "Subject headedMessage = [] \<and> Get subjectStore (Header headedMessage) ''Subject'' = ''Hello''
   \<and> Get (snd (GetHeader exampleEnv subjectStore headedMessage))
        (Some (fst (GetHeader exampleEnv subjectStore headedMessage))) ''Subject'' \<noteq> ''Hello''"
proof -
  have a: "allocated subjectStore (Header headedMessage)"
    by (simp add: headedMessage_def emptyMessage_def subjectStore_def oneHeaderStore_def)
  have g: "GetHeader exampleEnv subjectStore headedMessage =
             (fst (GetHeader exampleEnv subjectStore headedMessage),
              snd (GetHeader exampleEnv subjectStore headedMessage))" by simp
  have e: "EncodeHeader exampleEnv (Subject headedMessage) = []"
    by (simp add: exampleEnv_def headedMessage_def emptyMessage_def)
  have old: "Get subjectStore (Header headedMessage) ''Subject'' = ''Hello''"
    by (simp add: headedMessage_def emptyMessage_def subjectStore_def oneHeaderStore_def Get_def canon_keys)
  have s: "Subject headedMessage = []" by (simp add: headedMessage_def emptyMessage_def)
  from GetHeader_standard_fields(1) [OF g a]
  have "Get (snd (GetHeader exampleEnv subjectStore headedMessage))
          (Some (fst (GetHeader exampleEnv subjectStore headedMessage))) ''Subject'' = []"
    by (simp only: e)
  with s old show ?thesis by simp
qed

subsection \<open>The mapping returned and the message's own mapping\<close>

text \<open>
  Claim C4 says that the call leaves the Message, and the mapping its Header field holds,
  as they were. The code does not: when \<open>msg.Header\<close> is not nil, line 37 converts it to
  \<open>textproto.MIMEHeader\<close>, which gives the same mapping and no copy, so every \<open>Set\<close>
  writes into the message's own header. On a message with an empty header and the subject
  \<open>Hi\<close>, the mapping returned is the message's (address 0), and after the call the
  message's header has the subject \<open>Hi\<close> that it did not have before.
\<close>

theorem GetHeader_writes_message_header:
  "Header greetingMessage = Some 0
   \<and> fst (GetHeader exampleEnv (oneHeaderStore Map.empty) greetingMessage) = 0
   \<and> Get (oneHeaderStore Map.empty) (Header greetingMessage) ''Subject'' = []
   \<and> Get (snd (GetHeader exampleEnv (oneHeaderStore Map.empty) greetingMessage))
        (Header greetingMessage) ''Subject'' = ''Hi''"
proof -
  have hd: "Header greetingMessage = Some 0" by (simp add: greetingMessage_def emptyMessage_def)
  have a: "allocated (oneHeaderStore Map.empty) (Header greetingMessage)"
    by (simp add: hd oneHeaderStore_def)
  have g: "GetHeader exampleEnv (oneHeaderStore Map.empty) greetingMessage =
             (fst (GetHeader exampleEnv (oneHeaderStore Map.empty) greetingMessage),
              snd (GetHeader exampleEnv (oneHeaderStore Map.empty) greetingMessage))" by simp
  have r: "fst (GetHeader exampleEnv (oneHeaderStore Map.empty) greetingMessage) = 0"
    using GetHeader_ref [OF g] by (simp add: hd)
  have e: "EncodeHeader exampleEnv (Subject greetingMessage) = ''Hi''"
    by (simp add: exampleEnv_def greetingMessage_def emptyMessage_def)
  have old: "Get (oneHeaderStore Map.empty) (Header greetingMessage) ''Subject'' = []"
    by (simp add: hd oneHeaderStore_def Get_def)
  from GetHeader_standard_fields(1) [OF g a] r hd old e show ?thesis by simp
qed

subsection \<open>Identifiers and references\<close>




subsection \<open>Attachment headers\<close>

text \<open>The forwarding loop of lines 133 to 139 leaves every field alone whose canonical key
  is none of the forwarded ones.\<close>

lemma forward_keeps:
  assumes "\<forall>k \<in> set ks. CanonicalMIMEHeaderKey k \<noteq> CanonicalMIMEHeaderKey k'"
  shows "Get (foldl (\<lambda>st k. if Get st a k \<noteq> [] then Set st h k (Get st a k) else st) st ks) h' k'
           = Get st h' k'"
  using assms
proof (induction ks arbitrary: st)
  case Nil
  then show ?case by simp
next
  case (Cons k ks)
  have "Get (if Get st a k \<noteq> [] then Set st h k (Get st a k) else st) h' k' = Get st h' k'"
    using Cons.prems by (simp add: Get_Set)
  with Cons show ?case by simp
qed

lemma forward_distinct:
  "\<forall>k \<in> set forward. CanonicalMIMEHeaderKey k \<noteq> CanonicalMIMEHeaderKey ''Content-Disposition''"
  by (simp add: forward_def canon_keys)

text \<open>
  Claim C8. The \<open>Content-Disposition\<close> that \<open>GetAttachmentHeader\<close> produces is
  \<open>mime.FormatMediaType\<close> of the disposition \<open>inline\<close> if the \<open>Content-Disposition\<close> value
  of the attachment's own header contains the substring \<open>inline\<close>, and of \<open>attachment\<close>
  otherwise, with the encoded name as \<open>filename\<close>.
\<close>

theorem GetAttachmentHeader_disposition:
  "Get (snd (GetAttachmentHeader E st att)) (Some (fst (GetAttachmentHeader E st att)))
      ''Content-Disposition''
     = FormatMediaType E
         (if Contains (Get st (attHeader att) ''Content-Disposition'') ''inline''
          then ''inline'' else ''attachment'')
         [''filename'' \<mapsto> EncodeHeader E (attName att)]"
  unfolding GetAttachmentHeader_def Let_def makeMIMEHeader_def prod.case fst_conv snd_conv
  by (simp add: forward_keeps [OF forward_distinct] Get_Set)

text \<open>An attachment whose header says \<open>inline; filename=logo.png\<close>.\<close>

theorem GetAttachmentHeader_disposition_example:
  "Get (snd (GetAttachmentHeader exampleEnv inlineStore inlineAttachment))
     (Some (fst (GetAttachmentHeader exampleEnv inlineStore inlineAttachment))) ''Content-Disposition''
     = ''inline''"
proof -
  have "Get inlineStore (attHeader inlineAttachment) ''Content-Disposition'' = ''inline; filename=logo.png''"
    by (simp add: inlineStore_def inlineAttachment_def oneHeaderStore_def Get_def canon_keys)
  moreover have "Contains ''inline; filename=logo.png'' ''inline''" by code_simp
  ultimately show ?thesis
    using GetAttachmentHeader_disposition [of exampleEnv inlineStore inlineAttachment]
    by (simp add: exampleEnv_def)
qed

end
